theory Spec2Isabelle
  imports Complex_Main
begin

section \<open>Python values shared by the two programs\<close>

text \<open>
  The repository holds two variants of one retail chat agent:
  \<^verbatim>\<open>claudandlanggraph.py\<close> (the turn runs through a LangGraph state graph; its
  definitions keep the source's names) and \<^verbatim>\<open>claudeonly.py\<close> (the turn is a plain
  method; its definitions carry the suffix \<open>_co\<close> where the name is taken).

  Exceptions are values. Only instances of Python's \<open>Exception\<close> class are modelled,
  which is what \<^verbatim>\<open>except Exception\<close> catches; \<open>ClientError\<close> stands for whatever the
  completion client raises (network error, rate limit, timeout).
\<close>

datatype exn = ValueError string | IndexError | AttributeError | ClientError string

text \<open>\<^verbatim>\<open>xs[i:]\<close>, \<^verbatim>\<open>xs[:j]\<close> and \<^verbatim>\<open>xs[-1]\<close>: slices clamp their bounds, indexing raises.\<close>

definition slice_from :: "int \<Rightarrow> 'a list \<Rightarrow> 'a list" where
  "slice_from i xs =
     (let n = int (length xs);
          start = (if i < 0 then max (n + i) 0 else min i n)
      in drop (nat start) xs)"

definition slice_to :: "int \<Rightarrow> 'a list \<Rightarrow> 'a list" where
  "slice_to j xs =
     (let n = int (length xs);
          stop = (if j < 0 then max (n + j) 0 else min j n)
      in take (nat stop) xs)"

definition index_last :: "'a list \<Rightarrow> exn + 'a" where
  "index_last xs = (if xs = [] then Inl IndexError else Inr (last xs))"

text \<open>\<^verbatim>\<open>sep.join(xs)\<close>: the items in order, the separator between neighbours.\<close>

definition join :: "string \<Rightarrow> string list \<Rightarrow> string" where
  "join sep xs = (case xs of [] \<Rightarrow> [] | x # rest \<Rightarrow> foldl (\<lambda>acc y. acc @ sep @ y) x rest)"

text \<open>\<^verbatim>\<open>s.split(sep)\<close> for a one-character separator, used to read a transcript back.\<close>

fun split_on :: "char \<Rightarrow> string \<Rightarrow> string list" where
  "split_on c [] = [[]]"
| "split_on c (x # xs) =
     (if x = c then [] # split_on c xs
      else (case split_on c xs of [] \<Rightarrow> [[x]] | l # ls \<Rightarrow> (x # l) # ls))"

text \<open>Truthiness of an optional string, and \<^verbatim>\<open>a or b\<close> on such values.\<close>

definition truthy :: "string option \<Rightarrow> bool" where
  "truthy v = (case v of None \<Rightarrow> False | Some s \<Rightarrow> s \<noteq> [])"

definition py_or :: "string option \<Rightarrow> string option \<Rightarrow> string option" where
  "py_or a b = (if truthy a then a else b)"

section \<open>The catalog\<close>

text \<open>
  A product is a dict with five fixed keys. The price is a float literal; the programs
  only store it and hand it to the serialiser, so it is modelled by the decimal number
  the literal denotes. The catalog is a dict literal: an association list in source
  order, with \<open>map_of\<close> as its lookup. \<open>PRODUCT_DB\<close> is the same in both files.
\<close>

record product =
  name :: string
  price :: rat
  specs :: string
  availability :: string
  category :: string

type_synonym catalog = "(string \<times> product) list"

definition PRODUCT_DB :: catalog where
  "PRODUCT_DB =
    [(''laptop'',
        \<lparr>name = ''ProBook X1'', price = 99999 / 100,
         specs = ''13-inch, 16GB RAM, 512GB SSD'',
         availability = ''In Stock'', category = ''Electronics''\<rparr>),
     (''headphones'',
        \<lparr>name = ''SoundMax Pro'', price = 14999 / 100,
         specs = ''Wireless, Noise-cancelling'',
         availability = ''Limited Stock'', category = ''Electronics''\<rparr>),
     (''smartphone'',
        \<lparr>name = ''GalaxyTech Pro'', price = 89999 / 100,
         specs = ''6.7-inch OLED, 256GB Storage, 5G'',
         availability = ''In Stock'', category = ''Electronics''\<rparr>),
     (''smartwatch'',
        \<lparr>name = ''FitTrack Elite'', price = 29999 / 100,
         specs = ''Always-on Display, Heart Rate, GPS'',
         availability = ''In Stock'', category = ''Electronics''\<rparr>),
     (''tablet'',
        \<lparr>name = ''SlateBook Air'', price = 64999 / 100,
         specs = ''10.9-inch, 128GB, WiFi+5G'',
         availability = ''Limited Stock'', category = ''Electronics''\<rparr>),
     (''camera'',
        \<lparr>name = ''PhotoPro X100'', price = 129999 / 100,
         specs = ''24MP, 4K Video, Mirrorless'',
         availability = ''In Stock'', category = ''Electronics''\<rparr>)]"

text \<open>
  Modelled from the spec: the catalog contract \<open>lookup(key) -> Product | absent\<close> of
  section 4.1. Neither source file defines or calls a lookup operation; the spec's
  contract is the dict's \<^verbatim>\<open>get\<close>, which answers \<open>None\<close> for a missing key.
\<close>

definition lookup :: "catalog \<Rightarrow> string \<Rightarrow> product option" where
  "lookup db key = map_of db key"

section \<open>Messages and the completion client\<close>

record message =
  role :: string
  content :: string

text \<open>
  The call \<^verbatim>\<open>self.client.messages.create(model=..., max_tokens=..., messages=...)\<close> is
  the one point of external I/O. Its behaviour on one call is a parameter
  \<open>create :: request \<Rightarrow> exn + response\<close>: it returns a response or raises. A response
  carries a list of content blocks; \<^verbatim>\<open>response.content[0].text\<close> raises on an empty
  list and on a block that has no text.
\<close>

record request =
  model :: string
  max_tokens :: nat
  req_messages :: "message list"

datatype block = TextBlock string | ToolUseBlock

record response =
  resp_content :: "block list"

definition response_text :: "response \<Rightarrow> exn + string" where
  "response_text r =
     (case resp_content r of
        [] \<Rightarrow> Inl IndexError
      | b # _ \<Rightarrow> (case b of TextBlock t \<Rightarrow> Inr t | ToolUseBlock \<Rightarrow> Inl AttributeError))"

definition completion_request :: "string \<Rightarrow> request" where
  "completion_request prompt =
     \<lparr>model = ''claude-3-sonnet-20240229'', max_tokens = 1024,
      req_messages = [\<lparr>role = ''user'', content = prompt\<rparr>]\<rparr>"

definition apology :: string where
  "apology = ''I apologize, but I encountered an error. Please try again.''"

text \<open>
  The line of one message in a transcript, the element of the list comprehension that
  both files write:
  \<^verbatim>\<open>f"{'Customer' if msg['role'] == 'user' else 'Assistant'}: {msg['content']}"\<close>.
\<close>

definition transcript_line :: "message \<Rightarrow> string" where
  "transcript_line msg =
     (if role msg = ''user'' then ''Customer'' else ''Assistant'') @ '': '' @ content msg"

section \<open>claudandlanggraph.py: the turn as a state graph\<close>

record AgentState =
  messages :: "message list"
  current_step :: string
  context_lg :: "(string \<times> catalog) list"
  product_db :: catalog
  query_type :: "string option"
  mentioned_products :: "string list"
  completed :: bool

text \<open>
  The agent object. Its \<open>client\<close> is the \<open>create\<close> parameter of the functions below,
  its \<open>graph\<close> and \<open>chain\<close> are the function \<open>invoke\<close>.
\<close>

record RetailChatAgent =
  api_key :: string
  agent_product_db :: catalog

text \<open>
  \<open>__init__\<close>: \<open>arg\<close> is the \<open>api_key\<close> argument (\<open>None\<close> by default), \<open>env\<close> is
  what \<^verbatim>\<open>os.getenv('ANTHROPIC_API_KEY')\<close> returns.
\<close>

definition init :: "string option \<Rightarrow> string option \<Rightarrow> exn + RetailChatAgent" where
  "init arg env =
     (case py_or arg env of
        None \<Rightarrow> Inl (ValueError ''ANTHROPIC_API_KEY not found'')
      | Some k \<Rightarrow>
          if \<not> truthy (Some k) then Inl (ValueError ''ANTHROPIC_API_KEY not found'')
          else Inr \<lparr>api_key = k, agent_product_db = PRODUCT_DB\<rparr>)"

definition format_conversation_history :: "message list \<Rightarrow> string" where
  "format_conversation_history msgs = join ''\<newline>'' (map transcript_line msgs)"

text \<open>
  The f-string of \<open>process_step\<close>. \<^verbatim>\<open>json.dumps(self.product_db, indent=2)\<close> is the
  standard library's serialiser, taken as the parameter \<open>dumps\<close>.
  \<^verbatim>\<open>state['messages'][-1]\<close> raises on an empty list.
\<close>

definition build_prompt :: "(catalog \<Rightarrow> string) \<Rightarrow> RetailChatAgent \<Rightarrow> AgentState \<Rightarrow> exn + string" where
  "build_prompt dumps self state =
     (case index_last (messages state) of
        Inl e \<Rightarrow> Inl e
      | Inr current \<Rightarrow>
          Inr (''You are a helpful retail assistant. Help customers with product information, \<newline>''
             @ ''            availability, and general inquiries. Be concise but friendly.\<newline>''
             @ ''\<newline>''
             @ ''            Available Products:\<newline>''
             @ ''            '' @ dumps (agent_product_db self) @ ''\<newline>''
             @ ''\<newline>''
             @ ''            Previous Conversation:\<newline>''
             @ ''            '' @ format_conversation_history (slice_to (- 1) (messages state)) @ ''\<newline>''
             @ ''\<newline>''
             @ ''            Current Customer Message:\<newline>''
             @ ''            '' @ content current))"

text \<open>The statements of the \<open>try\<close> block that can raise: prompt, call, extraction.\<close>

definition attempt :: "(catalog \<Rightarrow> string) \<Rightarrow> (request \<Rightarrow> exn + response) \<Rightarrow>
    RetailChatAgent \<Rightarrow> AgentState \<Rightarrow> exn + string" where
  "attempt dumps create self state =
     (case build_prompt dumps self state of
        Inl e \<Rightarrow> Inl e
      | Inr prompt \<Rightarrow>
          (case create (completion_request prompt) of
             Inl e \<Rightarrow> Inl e
           | Inr response \<Rightarrow> response_text response))"

text \<open>\<open>process_step\<close>; the handler's \<open>logger.error\<close> line writes to the log only.\<close>

definition process_step :: "(catalog \<Rightarrow> string) \<Rightarrow> (request \<Rightarrow> exn + response) \<Rightarrow>
    RetailChatAgent \<Rightarrow> AgentState \<Rightarrow> AgentState" where
  "process_step dumps create self state =
     (case attempt dumps create self state of
        Inr text \<Rightarrow>
          state\<lparr>messages := messages state @ [\<lparr>role = ''assistant'', content = text\<rparr>],
                completed := True\<rparr>
      | Inl e \<Rightarrow>
          state\<lparr>messages := messages state @ [\<lparr>role = ''assistant'', content = apology\<rparr>],
                completed := True\<rparr>)"

definition should_continue :: "AgentState \<Rightarrow> string" where
  "should_continue state = (if completed state then ''end'' else ''process'')"

text \<open>
  The compiled graph of \<open>_create_chat_graph\<close>: entry point \<open>process\<close>, then the
  conditional edge, which leads back to \<open>process\<close> on the answer \<open>process\<close> and to
  \<open>END\<close> otherwise. The recursion is the edge back to the node.
\<close>

function invoke :: "(catalog \<Rightarrow> string) \<Rightarrow> (request \<Rightarrow> exn + response) \<Rightarrow>
    RetailChatAgent \<Rightarrow> AgentState \<Rightarrow> AgentState" where
  "invoke dumps create self state =
     (let state' = process_step dumps create self state
      in if should_continue state' = ''process'' then invoke dumps create self state'
         else state')"
  by pat_completeness auto
termination
  by (relation "{}")
     (simp_all add: should_continue_def process_step_def split: sum.splits)

text \<open>The equation of \<open>invoke\<close> mentions \<open>invoke\<close>: it is unfolded by hand only.\<close>

declare invoke.simps [simp del]

text \<open>
  \<open>chat\<close> in two steps: \<open>turn_state\<close> is the state it hands to
  \<^verbatim>\<open>self.chain.invoke\<close> (a fresh state or the caller's with \<open>completed\<close> reset, then
  the user message appended), \<open>chat\<close> is the invocation of the graph on it.
\<close>

definition turn_state :: "RetailChatAgent \<Rightarrow> string \<Rightarrow> AgentState option \<Rightarrow> AgentState" where
  "turn_state self message state =
     (let state0 =
        (case state of
           None \<Rightarrow>
             \<lparr>messages = [], current_step = ''process'',
              context_lg = [(''product_db'', agent_product_db self)],
              product_db = agent_product_db self, query_type = None,
              mentioned_products = [], completed = False\<rparr>
         | Some s \<Rightarrow> s\<lparr>completed := False\<rparr>)
      in state0\<lparr>messages := messages state0 @ [\<lparr>role = ''user'', content = message\<rparr>]\<rparr>)"

definition chat :: "(catalog \<Rightarrow> string) \<Rightarrow> (request \<Rightarrow> exn + response) \<Rightarrow>
    RetailChatAgent \<Rightarrow> string \<Rightarrow> AgentState option \<Rightarrow> AgentState" where
  "chat dumps create self message state =
     invoke dumps create self (turn_state self message state)"

text \<open>
  The calls of the loop in \<open>run_interactive_chat\<close>: \<open>state = None\<close>, then
  \<open>state = agent.chat(user_input, state)\<close> for each input line. Every turn comes with
  the behaviour of the client on that turn.
\<close>

fun run_chat :: "(catalog \<Rightarrow> string) \<Rightarrow> RetailChatAgent \<Rightarrow> AgentState option \<Rightarrow>
    (string \<times> (request \<Rightarrow> exn + response)) list \<Rightarrow> AgentState option" where
  "run_chat dumps self state [] = state"
| "run_chat dumps self state ((user_input, create) # rest) =
     run_chat dumps self (Some (chat dumps create self user_input state)) rest"

section \<open>claudeonly.py: the turn as a method\<close>

record AgentState_co =
  messages_co :: "message list"
  should_end :: bool
  context_co :: "(string \<times> catalog) list"
  product_db_co :: catalog
  state_history :: "message list"

record RetailChatAgent_co =
  api_key_co :: string
  agent_product_db_co :: catalog
  history :: "message list"
  state_co :: AgentState_co

definition initialize_state :: "catalog \<Rightarrow> AgentState_co" where
  "initialize_state db =
     \<lparr>messages_co = [], should_end = False, context_co = [(''product_db'', db)],
      product_db_co = db, state_history = []\<rparr>"

definition init_co :: "string option \<Rightarrow> string option \<Rightarrow> exn + RetailChatAgent_co" where
  "init_co arg env =
     (case py_or arg env of
        None \<Rightarrow> Inl (ValueError ''ANTHROPIC_API_KEY not found'')
      | Some k \<Rightarrow>
          if \<not> truthy (Some k) then Inl (ValueError ''ANTHROPIC_API_KEY not found'')
          else Inr \<lparr>api_key_co = k, agent_product_db_co = PRODUCT_DB, history = [],
                    state_co = initialize_state PRODUCT_DB\<rparr>)"

text \<open>The local \<open>conversation_history\<close> of \<open>create_prompt\<close>, then its f-string.\<close>

definition conversation_history :: "RetailChatAgent_co \<Rightarrow> string" where
  "conversation_history self =
     join ''\<newline>'' (map transcript_line (slice_from (- 5) (history self)))"

definition create_prompt :: "(catalog \<Rightarrow> string) \<Rightarrow> RetailChatAgent_co \<Rightarrow> string \<Rightarrow> string" where
  "create_prompt dumps self user_message =
     ''You are a helpful retail assistant for an electronics store. Help customers with product information, \<newline>''
     @ ''        availability, and general inquiries. Be concise but friendly. When mentioning prices, always include the currency symbol ($).\<newline>''
     @ ''\<newline>''
     @ ''        Available Products:\<newline>''
     @ ''        '' @ dumps (agent_product_db_co self) @ ''\<newline>''
     @ ''\<newline>''
     @ ''        Previous Conversation:\<newline>''
     @ ''        '' @ conversation_history self @ ''\<newline>''
     @ ''\<newline>''
     @ ''        Customer: '' @ user_message"

definition attempt_co :: "(catalog \<Rightarrow> string) \<Rightarrow> (request \<Rightarrow> exn + response) \<Rightarrow>
    RetailChatAgent_co \<Rightarrow> string \<Rightarrow> exn + string" where
  "attempt_co dumps create self message =
     (case create (completion_request (create_prompt dumps self message)) of
        Inl e \<Rightarrow> Inl e
      | Inr response \<Rightarrow> response_text response)"

text \<open>\<open>chat\<close> returns the reply and leaves the agent changed: the pair of both.\<close>

definition chat_co :: "(catalog \<Rightarrow> string) \<Rightarrow> (request \<Rightarrow> exn + response) \<Rightarrow>
    RetailChatAgent_co \<Rightarrow> string \<Rightarrow> string \<times> RetailChatAgent_co" where
  "chat_co dumps create self message =
     (case attempt_co dumps create self message of
        Inr assistant_message \<Rightarrow>
          (assistant_message,
           self\<lparr>history := history self @ [\<lparr>role = ''user'', content = message\<rparr>]
                                        @ [\<lparr>role = ''assistant'', content = assistant_message\<rparr>]\<rparr>)
      | Inl e \<Rightarrow> (apology, self))"

fun run_chat_co :: "(catalog \<Rightarrow> string) \<Rightarrow> RetailChatAgent_co \<Rightarrow>
    (string \<times> (request \<Rightarrow> exn + response)) list \<Rightarrow> RetailChatAgent_co" where
  "run_chat_co dumps self [] = self"
| "run_chat_co dumps self ((user_input, create) # rest) =
     run_chat_co dumps (snd (chat_co dumps create self user_input)) rest"

text \<open>The number of turns of a run whose completion did not raise.\<close>

fun answered_co :: "(catalog \<Rightarrow> string) \<Rightarrow> RetailChatAgent_co \<Rightarrow>
    (string \<times> (request \<Rightarrow> exn + response)) list \<Rightarrow> nat" where
  "answered_co dumps self [] = 0"
| "answered_co dumps self ((user_input, create) # rest) =
     (if isl (attempt_co dumps create self user_input) then 0 else 1)
     + answered_co dumps (snd (chat_co dumps create self user_input)) rest"

text \<open>Test doubles: a serialiser stub, a client that answers, a client that raises.\<close>

definition stub_dumps :: "catalog \<Rightarrow> string" where
  "stub_dumps db = ''{}''"

definition canned_client :: "request \<Rightarrow> exn + response" where
  "canned_client req = Inr \<lparr>resp_content = [TextBlock ''We have the ProBook X1 for $999.99.'']\<rparr>"

definition failing_client :: "request \<Rightarrow> exn + response" where
  "failing_client req = Inl (ClientError ''connection reset'')"

definition fresh_agent :: RetailChatAgent where
  "fresh_agent = \<lparr>api_key = ''sk-test'', agent_product_db = PRODUCT_DB\<rparr>"

definition fresh_agent_co :: RetailChatAgent_co where
  "fresh_agent_co =
     \<lparr>api_key_co = ''sk-test'', agent_product_db_co = PRODUCT_DB, history = [],
      state_co = initialize_state PRODUCT_DB\<rparr>"

section \<open>The spec's wording, for comparison\<close>

text \<open>
  The transcript as the spec describes it: one line per message, in order, the content
  after \<open>Customer: \<close> for a user message and after \<open>Assistant: \<close> for any other, a
  newline between consecutive lines.
\<close>

fun transcript_spec :: "message list \<Rightarrow> string" where
  "transcript_spec [] = []"
| "transcript_spec [m] =
     (if role m = ''user'' then ''Customer: '' else ''Assistant: '') @ content m"
| "transcript_spec (m # m' # ms) =
     (if role m = ''user'' then ''Customer: '' else ''Assistant: '') @ content m
     @ ''\<newline>'' @ transcript_spec (m' # ms)"

text \<open>The history a caller of the graph variant holds: none before the first turn.\<close>

definition history_of :: "AgentState option \<Rightarrow> message list" where
  "history_of st = (case st of None \<Rightarrow> [] | Some s \<Rightarrow> messages s)"

section \<open>Facts about the Python operations\<close>

lemma slice_from_last5: "slice_from (- 5) xs = drop (length xs - 5) xs"
  by (simp add: slice_from_def Let_def max_def nat_diff_distrib')

lemma slice_to_butlast: "slice_to (- 1) xs = butlast xs"
  by (simp add: slice_to_def Let_def max_def butlast_conv_take nat_diff_distrib')

lemma foldl_sep_prefix:
  "foldl (\<lambda>acc y. acc @ sep @ y) (a @ b) rest = a @ foldl (\<lambda>acc y. acc @ sep @ y) b rest"
  by (induction rest arbitrary: b) simp_all

lemma join_Nil: "join sep [] = []"
  by (simp add: join_def)

lemma join_single: "join sep [x] = x"
  by (simp add: join_def)

lemma join_Cons2: "join sep (x # y # ys) = x @ sep @ join sep (y # ys)"
  using foldl_sep_prefix [of sep x "sep @ y" ys] foldl_sep_prefix [of sep sep y ys]
  by (simp add: join_def)

lemma split_on_clean: "c \<notin> set l \<Longrightarrow> split_on c l = [l]"
  by (induction l) auto

lemma split_on_first: "c \<notin> set l \<Longrightarrow> split_on c (l @ c # rest) = l # split_on c rest"
  by (induction l) auto

lemma split_on_join:
  "ls \<noteq> [] \<Longrightarrow> \<forall>l \<in> set ls. c \<notin> set l \<Longrightarrow> split_on c (join [c] ls) = ls"
proof (induction ls rule: induct_list012)
  case 1
  then show ?case by simp
next
  case (2 x)
  then show ?case by (simp add: join_single split_on_clean)
next
  case (3 x y zs)
  then show ?case by (simp add: join_Cons2 split_on_first)
qed

lemma join_lines_spec: "join ''\<newline>'' (map transcript_line msgs) = transcript_spec msgs"
  by (induction msgs rule: transcript_spec.induct)
     (simp_all add: join_Nil join_single join_Cons2 transcript_line_def)

lemma transcript_line_clean:
  "CHR ''\<newline>'' \<notin> set (content m) \<Longrightarrow> CHR ''\<newline>'' \<notin> set (transcript_line m)"
  by (simp add: transcript_line_def)

lemma length_turn_roles: "length (concat (replicate n [a, b])) = 2 * n"
  by (induction n) simp_all

section \<open>Facts about the graph variant\<close>

lemma invoke_once: "invoke dumps create self st = process_step dumps create self st"
  by (subst invoke.simps) (simp add: Let_def should_continue_def process_step_def split: sum.splits)

lemma chat_is_one_step:
  "chat dumps create self message prev
     = process_step dumps create self (turn_state self message prev)"
  by (simp add: chat_def invoke_once)

lemma turn_state_messages:
  "messages (turn_state self message prev)
     = history_of prev @ [\<lparr>role = ''user'', content = message\<rparr>]"
  by (cases prev) (simp_all add: turn_state_def history_of_def)

lemma turn_state_frame:
  "product_db (turn_state self message (Some st)) = product_db st
   \<and> context_lg (turn_state self message (Some st)) = context_lg st
   \<and> product_db (turn_state self message None) = agent_product_db self
   \<and> context_lg (turn_state self message None) = [(''product_db'', agent_product_db self)]"
  by (simp add: turn_state_def)

lemma process_step_reply:
  "process_step dumps create self st
     = st\<lparr>messages := messages st
            @ [\<lparr>role = ''assistant'',
                content = (case attempt dumps create self st of Inl e \<Rightarrow> apology | Inr t \<Rightarrow> t)\<rparr>],
          completed := True\<rparr>"
  by (cases "attempt dumps create self st") (simp_all add: process_step_def)

lemma process_step_raise:
  "attempt dumps create self st = Inl e \<Longrightarrow>
     process_step dumps create self st
       = st\<lparr>messages := messages st @ [\<lparr>role = ''assistant'', content = apology\<rparr>],
             completed := True\<rparr>"
  by (simp add: process_step_def)

lemma process_step_apology_reply:
  "process_step dumps (\<lambda>req. Inr \<lparr>resp_content = [TextBlock apology]\<rparr>) self st
     = st\<lparr>messages := messages st @ [\<lparr>role = ''assistant'', content = apology\<rparr>],
           completed := True\<rparr>"
  by (cases "build_prompt dumps self st")
     (simp_all add: process_step_def attempt_def response_text_def)

lemma process_step_frame:
  "product_db (process_step dumps create self st) = product_db st
   \<and> context_lg (process_step dumps create self st) = context_lg st"
  by (simp add: process_step_def split: sum.splits)

lemma chat_roles:
  "map role (messages (chat dumps create self message prev))
     = map role (history_of prev) @ [''user'', ''assistant'']"
  by (simp add: chat_is_one_step process_step_reply turn_state_messages)

lemma run_chat_roles:
  "map role (history_of (run_chat dumps self prev turns))
     = map role (history_of prev) @ concat (replicate (length turns) [''user'', ''assistant''])"
proof (induction turns arbitrary: prev)
  case Nil
  then show ?case by simp
next
  case (Cons turn turns)
  obtain user_input create where turn: "turn = (user_input, create)"
    by (cases turn)
  have "map role (history_of (Some (chat dumps create self user_input prev)))
      = map role (history_of prev) @ [''user'', ''assistant'']"
    by (simp add: history_of_def chat_roles)
  with Cons.IH [of "Some (chat dumps create self user_input prev)"] turn
  show ?case by simp
qed

section \<open>Facts about the plain variant\<close>

lemma chat_co_raise:
  "attempt_co dumps create self message = Inl e \<Longrightarrow>
     chat_co dumps create self message = (apology, self)"
  by (simp add: chat_co_def)

lemma chat_co_frame:
  "agent_product_db_co (snd (chat_co dumps create self message)) = agent_product_db_co self
   \<and> state_co (snd (chat_co dumps create self message)) = state_co self
   \<and> api_key_co (snd (chat_co dumps create self message)) = api_key_co self"
  by (simp add: chat_co_def split: sum.splits)

lemma run_chat_co_frame:
  "agent_product_db_co (run_chat_co dumps self turns) = agent_product_db_co self
   \<and> state_co (run_chat_co dumps self turns) = state_co self"
  by (induction dumps self turns rule: run_chat_co.induct) (simp_all add: chat_co_frame)

lemma chat_co_roles:
  "map role (history (snd (chat_co dumps create self message)))
     = map role (history self)
       @ (if isl (attempt_co dumps create self message) then [] else [''user'', ''assistant''])"
  by (cases "attempt_co dumps create self message") (simp_all add: chat_co_def)

lemma run_chat_co_roles:
  "map role (history (run_chat_co dumps self turns))
     = map role (history self)
       @ concat (replicate (answered_co dumps self turns) [''user'', ''assistant''])"
proof (induction dumps self turns rule: run_chat_co.induct)
  case (1 dumps self)
  then show ?case by simp
next
  case (2 dumps self user_input create rest)
  then show ?case
    by (simp add: chat_co_roles)
qed

lemma answered_co_le: "answered_co dumps self turns \<le> length turns"
  by (induction dumps self turns rule: answered_co.induct) simp_all

lemma answered_co_all:
  "\<forall>turn \<in> set turns. \<forall>req. \<exists>t bs. snd turn req = Inr \<lparr>resp_content = TextBlock t # bs\<rparr> \<Longrightarrow>
     answered_co dumps self turns = length turns"
proof (induction dumps self turns rule: answered_co.induct)
  case (1 dumps self)
  then show ?case by simp
next
  case (2 dumps self user_input create rest)
  from "2.prems" obtain t bs where
    "create (completion_request (create_prompt dumps self user_input))
       = Inr \<lparr>resp_content = TextBlock t # bs\<rparr>"
    by fastforce
  then have ok: "\<not> isl (attempt_co dumps create self user_input)"
    by (simp add: attempt_co_def response_text_def)
  from "2.prems" have
    "\<forall>turn \<in> set rest. \<forall>req. \<exists>t bs. snd turn req = Inr \<lparr>resp_content = TextBlock t # bs\<rparr>"
    by simp
  with "2.IH" ok show ?case by simp
qed

section \<open>The history after N turns\<close>

text \<open>
  C1, as amended. In \<^verbatim>\<open>claudandlanggraph.py\<close>, N successive calls of \<open>chat\<close>, starting
  without a state and threading the returned state, leave exactly 2N messages whose
  roles are user, assistant, user, assistant, ..., whatever the client does on each
  turn. In \<^verbatim>\<open>claudeonly.py\<close>, starting from an empty history, the history holds two
  messages, user then assistant, for every turn whose completion did not raise, and
  nothing for the others: 2S messages for S answered turns, S at most N, and 2N when
  the client answers every request with a text block first.
\<close>

theorem history_two_per_answered_turn:
  "map role (history_of (run_chat dumps self None turns))
     = concat (replicate (length turns) [''user'', ''assistant''])
   \<and> length (history_of (run_chat dumps self None turns)) = 2 * length turns
   \<and> (history self_co = [] \<longrightarrow>
        map role (history (run_chat_co dumps self_co turns))
          = concat (replicate (answered_co dumps self_co turns) [''user'', ''assistant''])
        \<and> length (history (run_chat_co dumps self_co turns))
          = 2 * answered_co dumps self_co turns
        \<and> answered_co dumps self_co turns \<le> length turns)
   \<and> (history self_co = []
        \<and> (\<forall>turn \<in> set turns. \<forall>req. \<exists>t bs.
              snd turn req = Inr \<lparr>resp_content = TextBlock t # bs\<rparr>) \<longrightarrow>
        length (history (run_chat_co dumps self_co turns)) = 2 * length turns)"
proof -
  have lg: "map role (history_of (run_chat dumps self None turns))
      = concat (replicate (length turns) [''user'', ''assistant''])"
    using run_chat_roles [of dumps self None turns] by (simp add: history_of_def)
  have "length (map role (history_of (run_chat dumps self None turns))) = 2 * length turns"
    by (simp only: lg length_turn_roles)
  then have lg_len: "length (history_of (run_chat dumps self None turns)) = 2 * length turns"
    by simp
  have co: "map role (history (run_chat_co dumps self_co turns))
      = concat (replicate (answered_co dumps self_co turns) [''user'', ''assistant''])"
    if "history self_co = []"
    using that run_chat_co_roles [of dumps self_co turns] by simp
  have co_len: "length (history (run_chat_co dumps self_co turns))
      = 2 * answered_co dumps self_co turns"
    if "history self_co = []"
  proof -
    have "length (map role (history (run_chat_co dumps self_co turns)))
        = 2 * answered_co dumps self_co turns"
      by (simp only: co [OF that] length_turn_roles)
    then show ?thesis by simp
  qed
  have co_all: "length (history (run_chat_co dumps self_co turns)) = 2 * length turns"
    if "history self_co = []"
      and "\<forall>turn \<in> set turns. \<forall>req. \<exists>t bs.
             snd turn req = Inr \<lparr>resp_content = TextBlock t # bs\<rparr>"
    using co_len [OF that(1)] answered_co_all [OF that(2), of dumps self_co] by simp
  from lg lg_len co co_len co_all answered_co_le [of dumps self_co turns]
  show ?thesis by blast
qed

theorem history_two_per_answered_turn_witness:
  "history fresh_agent_co = []
   \<and> length (history_of (run_chat stub_dumps fresh_agent None
        [(''a'', canned_client), (''b'', failing_client), (''c'', canned_client)])) = 6
   \<and> answered_co stub_dumps fresh_agent_co
        [(''a'', canned_client), (''b'', failing_client), (''c'', canned_client)] = 2
   \<and> map role (history (run_chat_co stub_dumps fresh_agent_co
        [(''a'', canned_client), (''b'', failing_client), (''c'', canned_client)]))
      = [''user'', ''assistant'', ''user'', ''assistant'']
   \<and> length (history (run_chat_co stub_dumps fresh_agent_co
        [(''a'', canned_client), (''c'', canned_client)])) = 4"
proof -
  have empty: "history fresh_agent_co = []"
    by (simp add: fresh_agent_co_def)
  have answers: "\<forall>turn \<in> set [(''a'', canned_client), (''c'', canned_client)]. \<forall>req. \<exists>t bs.
      snd turn req = Inr \<lparr>resp_content = TextBlock t # bs\<rparr>"
    by (simp add: canned_client_def)
  have count: "answered_co stub_dumps fresh_agent_co
        [(''a'', canned_client), (''b'', failing_client), (''c'', canned_client)] = 2"
    by (simp add: attempt_co_def chat_co_def canned_client_def failing_client_def
        response_text_def)
  from empty answers count
    history_two_per_answered_turn [of stub_dumps fresh_agent
      "[(''a'', canned_client), (''b'', failing_client), (''c'', canned_client)]" fresh_agent_co]
    history_two_per_answered_turn [of stub_dumps fresh_agent
      "[(''a'', canned_client), (''c'', canned_client)]" fresh_agent_co]
  show ?thesis
    by (simp add: numeral_2_eq_2)
qed

text \<open>
  Without the restriction to answered turns the count fails: in \<^verbatim>\<open>claudeonly.py\<close>
  a turn whose completion raises adds nothing to the history, so one turn with a failing
  client leaves an empty history where two messages were expected.
\<close>

theorem history_two_per_turn_counterexample:
  "length (history (run_chat_co stub_dumps fresh_agent_co
       [(''What laptops do you have?'', failing_client)]))
   \<noteq> 2 * length [(''What laptops do you have?'', failing_client)]"
  by (simp add: chat_co_def attempt_co_def failing_client_def fresh_agent_co_def)

section \<open>A failing completion\<close>

text \<open>
  C2, as amended. In \<^verbatim>\<open>claudandlanggraph.py\<close>, when the completion client raises on
  the request of the turn, \<open>process_step\<close> returns a state: the apology is appended as
  the assistant message, \<open>completed\<close> is true, and the state equals the one a successful
  reply carrying the apology text produces; for \<open>chat\<close> the history grows by the user
  message and the apology. In \<^verbatim>\<open>claudeonly.py\<close>, \<open>chat\<close> returns the apology and the
  agent as it was: nothing is appended, and there is no completion flag.
\<close>

theorem client_failure_contained:
  "(build_prompt dumps self st = Inr prompt \<and> create (completion_request prompt) = Inl e \<longrightarrow>
      process_step dumps create self st
        = st\<lparr>messages := messages st @ [\<lparr>role = ''assistant'', content = apology\<rparr>],
              completed := True\<rparr>
      \<and> process_step dumps create self st
        = process_step dumps (\<lambda>req. Inr \<lparr>resp_content = [TextBlock apology]\<rparr>) self st)
   \<and> (build_prompt dumps self (turn_state self message prev) = Inr prompt'
      \<and> create (completion_request prompt') = Inl e' \<longrightarrow>
      messages (chat dumps create self message prev)
        = history_of prev @ [\<lparr>role = ''user'', content = message\<rparr>,
                             \<lparr>role = ''assistant'', content = apology\<rparr>]
      \<and> completed (chat dumps create self message prev))
   \<and> (create (completion_request (create_prompt dumps self_co message)) = Inl e'' \<longrightarrow>
      chat_co dumps create self_co message = (apology, self_co))"
proof -
  have step: "process_step dumps create self s
      = s\<lparr>messages := messages s @ [\<lparr>role = ''assistant'', content = apology\<rparr>],
           completed := True\<rparr>"
    if "build_prompt dumps self s = Inr p" and "create (completion_request p) = Inl x"
    for s p x
  proof -
    from that have "attempt dumps create self s = Inl x"
      by (simp add: attempt_def)
    then show ?thesis by (rule process_step_raise)
  qed
  have turn: "messages (chat dumps create self message prev)
        = history_of prev @ [\<lparr>role = ''user'', content = message\<rparr>,
                             \<lparr>role = ''assistant'', content = apology\<rparr>]
      \<and> completed (chat dumps create self message prev)"
    if "build_prompt dumps self (turn_state self message prev) = Inr prompt'"
      and "create (completion_request prompt') = Inl e'"
    using step [OF that] by (simp add: chat_is_one_step turn_state_messages)
  have plain: "chat_co dumps create self_co message = (apology, self_co)"
    if "create (completion_request (create_prompt dumps self_co message)) = Inl e''"
    using that by (simp add: chat_co_def attempt_co_def)
  from step [of st prompt e] turn plain show ?thesis
    by (simp add: process_step_apology_reply)
qed

theorem client_failure_contained_witness:
  "(\<exists>p. build_prompt stub_dumps fresh_agent (turn_state fresh_agent ''hello'' None) = Inr p
        \<and> failing_client (completion_request p) = Inl (ClientError ''connection reset''))
   \<and> messages (chat stub_dumps failing_client fresh_agent ''hello'' None)
       = [\<lparr>role = ''user'', content = ''hello''\<rparr>, \<lparr>role = ''assistant'', content = apology\<rparr>]
   \<and> completed (chat stub_dumps failing_client fresh_agent ''hello'' None)
   \<and> chat_co stub_dumps failing_client fresh_agent_co ''hello'' = (apology, fresh_agent_co)"
proof -
  obtain p where p: "build_prompt stub_dumps fresh_agent (turn_state fresh_agent ''hello'' None) = Inr p"
    by (simp add: build_prompt_def index_last_def turn_state_messages)
  have raises: "failing_client req = Inl (ClientError ''connection reset'')" for req
    by (simp add: failing_client_def)
  from p raises
    client_failure_contained [of stub_dumps fresh_agent "turn_state fresh_agent ''hello'' None" p
      failing_client "ClientError ''connection reset''" "''hello''" None p
      "ClientError ''connection reset''" fresh_agent_co
      "ClientError ''connection reset''"]
  show ?thesis
    by (simp add: history_of_def)
qed

text \<open>
  The appended apology is the graph variant's alone: in \<^verbatim>\<open>claudeonly.py\<close> the
  handler returns the apology and appends nothing, so after a failed turn the apology is
  the reply and no assistant message with the apology is in the history.
\<close>

theorem failure_appends_apology_counterexample:
  "fst (chat_co stub_dumps failing_client fresh_agent_co ''hello'') = apology
   \<and> \<lparr>role = ''assistant'', content = apology\<rparr>
       \<notin> set (history (snd (chat_co stub_dumps failing_client fresh_agent_co ''hello'')))"
  by (simp add: chat_co_def attempt_co_def failing_client_def fresh_agent_co_def)

section \<open>The prompt\<close>

text \<open>
  C3: the prompt is a function of the catalog, the history window and the new message,
  and of nothing else. In \<^verbatim>\<open>claudeonly.py\<close>, two agents with the same catalog and
  the same last five messages get the same prompt for the same user message, whatever
  the older history. In \<^verbatim>\<open>claudandlanggraph.py\<close>, two states get the same prompt (or
  the same error) when the catalogs agree, the messages before the last agree and the
  content of the last message agrees; no other field of the state is read.
\<close>

theorem prompt_function_of_inputs:
  "(agent_product_db_co a1 = agent_product_db_co a2
      \<and> slice_from (- 5) (history a1) = slice_from (- 5) (history a2)
      \<longrightarrow> create_prompt dumps a1 user_message = create_prompt dumps a2 user_message)
   \<and> (agent_product_db self1 = agent_product_db self2
      \<and> slice_to (- 1) (messages s1) = slice_to (- 1) (messages s2)
      \<and> index_last (map content (messages s1)) = index_last (map content (messages s2))
      \<longrightarrow> build_prompt dumps self1 s1 = build_prompt dumps self2 s2)"
proof -
  have co: "create_prompt dumps a1 user_message = create_prompt dumps a2 user_message"
    if "agent_product_db_co a1 = agent_product_db_co a2"
      and "slice_from (- 5) (history a1) = slice_from (- 5) (history a2)"
    using that by (simp add: create_prompt_def conversation_history_def)
  have lg: "build_prompt dumps self1 s1 = build_prompt dumps self2 s2"
    if db: "agent_product_db self1 = agent_product_db self2"
      and window: "slice_to (- 1) (messages s1) = slice_to (- 1) (messages s2)"
      and current: "index_last (map content (messages s1)) = index_last (map content (messages s2))"
  proof (cases "messages s1 = []")
    case True
    with current have "messages s2 = []"
      by (simp add: index_last_def split: if_splits)
    with True show ?thesis
      by (simp add: build_prompt_def index_last_def)
  next
    case False
    with current have ne: "messages s2 \<noteq> []"
      by (auto simp: index_last_def split: if_splits)
    with False current have "content (last (messages s1)) = content (last (messages s2))"
      by (simp add: index_last_def last_map)
    with False ne db window show ?thesis
      by (simp add: build_prompt_def index_last_def)
  qed
  from co lg show ?thesis by blast
qed

theorem prompt_function_of_inputs_witness:
  "create_prompt stub_dumps
      (fresh_agent_co\<lparr>history :=
         [\<lparr>role = ''user'', content = ''zero''\<rparr>, \<lparr>role = ''assistant'', content = ''one''\<rparr>,
          \<lparr>role = ''user'', content = ''two''\<rparr>, \<lparr>role = ''assistant'', content = ''three''\<rparr>,
          \<lparr>role = ''user'', content = ''four''\<rparr>, \<lparr>role = ''assistant'', content = ''five''\<rparr>]\<rparr>)
      ''six''
    = create_prompt stub_dumps
      (fresh_agent_co\<lparr>api_key_co := ''sk-other'', history :=
         [\<lparr>role = ''assistant'', content = ''one''\<rparr>,
          \<lparr>role = ''user'', content = ''two''\<rparr>, \<lparr>role = ''assistant'', content = ''three''\<rparr>,
          \<lparr>role = ''user'', content = ''four''\<rparr>, \<lparr>role = ''assistant'', content = ''five''\<rparr>]\<rparr>)
      ''six''
   \<and> build_prompt stub_dumps fresh_agent
      ((turn_state fresh_agent ''hello'' None)\<lparr>completed := True, query_type := Some ''price''\<rparr>)
    = build_prompt stub_dumps (fresh_agent\<lparr>api_key := ''sk-other''\<rparr>)
      (turn_state fresh_agent ''hello'' None)"
  using prompt_function_of_inputs
    [of "fresh_agent_co\<lparr>history :=
         [\<lparr>role = ''user'', content = ''zero''\<rparr>, \<lparr>role = ''assistant'', content = ''one''\<rparr>,
          \<lparr>role = ''user'', content = ''two''\<rparr>, \<lparr>role = ''assistant'', content = ''three''\<rparr>,
          \<lparr>role = ''user'', content = ''four''\<rparr>, \<lparr>role = ''assistant'', content = ''five''\<rparr>]\<rparr>"
        "fresh_agent_co\<lparr>api_key_co := ''sk-other'', history :=
         [\<lparr>role = ''assistant'', content = ''one''\<rparr>,
          \<lparr>role = ''user'', content = ''two''\<rparr>, \<lparr>role = ''assistant'', content = ''three''\<rparr>,
          \<lparr>role = ''user'', content = ''four''\<rparr>, \<lparr>role = ''assistant'', content = ''five''\<rparr>]\<rparr>"
        stub_dumps "''six''" fresh_agent "fresh_agent\<lparr>api_key := ''sk-other''\<rparr>"
        "(turn_state fresh_agent ''hello'' None)\<lparr>completed := True, query_type := Some ''price''\<rparr>"
        "turn_state fresh_agent ''hello'' None"]
  by (simp add: slice_from_last5 slice_to_butlast turn_state_messages)

section \<open>The history window\<close>

text \<open>
  C4: the window \<^verbatim>\<open>self.history[-5:]\<close> of \<open>create_prompt\<close> is the last
  \<open>min 5 (length h)\<close> messages of the history in their order: it is a suffix of the
  history of that length; on twelve messages it is the messages at positions 7 to 11,
  on three messages it is all three. \<open>conversation_history\<close> formats exactly that
  window.
\<close>

theorem history_window_last_five:
  "slice_from (- 5) h = drop (length h - 5) h
   \<and> length (slice_from (- 5) h) = min 5 (length h)
   \<and> (\<exists>older. h = older @ slice_from (- 5) h)
   \<and> (length h = 12 \<longrightarrow> slice_from (- 5) h = [h ! 7, h ! 8, h ! 9, h ! 10, h ! 11])
   \<and> (length h = 3 \<longrightarrow> slice_from (- 5) h = h)
   \<and> conversation_history self
       = join ''\<newline>'' (map transcript_line (drop (length (history self) - 5) (history self)))"
proof -
  have w: "slice_from (- 5) h = drop (length h - 5) h"
    by (rule slice_from_last5)
  have len: "length (drop (length h - 5) h) = min 5 (length h)"
    by simp
  have suffix: "\<exists>older. h = older @ drop (length h - 5) h"
    by (metis append_take_drop_id)
  have twelve: "drop 7 h = [h ! 7, h ! 8, h ! 9, h ! 10, h ! 11]" if "length h = 12"
  proof (rule nth_equalityI)
    show "length (drop 7 h) = length [h ! 7, h ! 8, h ! 9, h ! 10, h ! 11]"
      using that by simp
  next
    fix i assume "i < length (drop 7 h)"
    then have "i < 5" using that by simp
    then consider "i = 0" | "i = 1" | "i = 2" | "i = 3" | "i = 4" by linarith
    then show "drop 7 h ! i = [h ! 7, h ! 8, h ! 9, h ! 10, h ! 11] ! i"
      using that by cases simp_all
  qed
  show ?thesis
    using w len suffix twelve
    by (auto simp: conversation_history_def slice_from_last5)
qed

theorem history_window_last_five_witness:
  "slice_from (- 5) [1, 2, 3, 4, 5, 6, 7, 8, 9, 10, 11, 12 :: nat] = [8, 9, 10, 11, 12]
   \<and> slice_from (- 5) [1, 2, 3 :: nat] = [1, 2, 3]"
  using history_window_last_five [of "[1, 2, 3, 4, 5, 6, 7, 8, 9, 10, 11, 12 :: nat]"]
        history_window_last_five [of "[1, 2, 3 :: nat]"]
  by simp

section \<open>Catalog lookup\<close>

text \<open>
  C5: looking \<open>laptop\<close> up in \<open>PRODUCT_DB\<close> gives a product whose price is 999.99 and
  whose availability is \<open>In Stock\<close>; looking up a key that is not one of the six keys of
  the catalog gives \<open>None\<close>, a value and not an error.
\<close>

theorem catalog_lookup:
  "(\<exists>p. lookup PRODUCT_DB ''laptop'' = Some p \<and> price p = 99999 / 100
         \<and> availability p = ''In Stock'')
   \<and> (key \<notin> set (map fst PRODUCT_DB) \<longrightarrow> lookup PRODUCT_DB key = None)
   \<and> set (map fst PRODUCT_DB)
       = {''laptop'', ''headphones'', ''smartphone'', ''smartwatch'', ''tablet'', ''camera''}"
proof -
  have known: "\<exists>p. lookup PRODUCT_DB ''laptop'' = Some p \<and> price p = 99999 / 100
         \<and> availability p = ''In Stock''"
    by (simp add: lookup_def PRODUCT_DB_def)
  have unknown: "key \<notin> set (map fst PRODUCT_DB) \<longrightarrow> lookup PRODUCT_DB key = None"
    by (simp add: lookup_def map_of_eq_None_iff)
  have keys: "set (map fst PRODUCT_DB)
       = {''laptop'', ''headphones'', ''smartphone'', ''smartwatch'', ''tablet'', ''camera''}"
    by (simp add: PRODUCT_DB_def)
  show ?thesis using known unknown keys by blast
qed

theorem catalog_lookup_witness:
  "''printer'' \<notin> set (map fst PRODUCT_DB) \<and> lookup PRODUCT_DB ''printer'' = None"
proof -
  have absent: "''printer'' \<notin> set (map fst PRODUCT_DB)"
    by (simp add: PRODUCT_DB_def)
  with catalog_lookup [of "''printer''"] show ?thesis by blast
qed

section \<open>Construction\<close>

text \<open>
  C6: in both files, constructing the agent with neither a usable \<open>api_key\<close> argument
  nor a usable value of the environment variable (each absent or the empty string)
  gives the error \<open>ValueError "ANTHROPIC_API_KEY not found"\<close> and no agent, so no
  completion call can follow; with a non-empty credential from either source the
  construction gives the agent, holding that credential and the catalog.
\<close>

theorem init_requires_credential:
  "(\<not> truthy arg \<and> \<not> truthy env \<longrightarrow>
      init arg env = Inl (ValueError ''ANTHROPIC_API_KEY not found'')
      \<and> init_co arg env = Inl (ValueError ''ANTHROPIC_API_KEY not found''))
   \<and> (truthy arg \<or> truthy env \<longrightarrow>
      (\<exists>k. k \<noteq> [] \<and> py_or arg env = Some k
           \<and> init arg env = Inr \<lparr>api_key = k, agent_product_db = PRODUCT_DB\<rparr>
           \<and> init_co arg env = Inr \<lparr>api_key_co = k, agent_product_db_co = PRODUCT_DB,
                history = [], state_co = initialize_state PRODUCT_DB\<rparr>))"
  by (cases arg; cases env) (auto simp: init_def init_co_def py_or_def truthy_def)

theorem init_requires_credential_witness:
  "init None None = Inl (ValueError ''ANTHROPIC_API_KEY not found'')
   \<and> init_co None None = Inl (ValueError ''ANTHROPIC_API_KEY not found'')
   \<and> init (Some ''sk-test'') None = Inr fresh_agent
   \<and> init_co None (Some ''sk-test'') = Inr fresh_agent_co"
  using init_requires_credential [of None None]
        init_requires_credential [of "Some ''sk-test''" None]
        init_requires_credential [of None "Some ''sk-test''"]
  by (simp add: truthy_def py_or_def fresh_agent_def fresh_agent_co_def)

section \<open>The transcript\<close>

text \<open>
  C7: the transcript formatter of both files (\<open>_format_conversation_history\<close>, and the
  comprehension inside \<open>create_prompt\<close> on the history window) renders any list of
  messages as the spec words it: the messages in order, each as its content after
  \<open>Customer: \<close> when its role is \<open>user\<close> and after \<open>Assistant: \<close> otherwise, with a
  newline between neighbours. When no content holds a newline, splitting the transcript
  of a non-empty list at the newlines gives back exactly one line per message.
\<close>

theorem transcript_one_line_per_message:
  "format_conversation_history msgs = transcript_spec msgs
   \<and> conversation_history self = transcript_spec (slice_from (- 5) (history self))
   \<and> (msgs \<noteq> [] \<and> (\<forall>m \<in> set msgs. CHR ''\<newline>'' \<notin> set (content m)) \<longrightarrow>
        split_on CHR ''\<newline>'' (format_conversation_history msgs)
        = map (\<lambda>m. (if role m = ''user'' then ''Customer: '' else ''Assistant: '') @ content m) msgs)"
proof -
  have a: "format_conversation_history msgs = transcript_spec msgs"
    by (simp add: format_conversation_history_def join_lines_spec)
  have b: "conversation_history self = transcript_spec (slice_from (- 5) (history self))"
    by (simp add: conversation_history_def join_lines_spec)
  have c: "split_on CHR ''\<newline>'' (format_conversation_history msgs)
        = map (\<lambda>m. (if role m = ''user'' then ''Customer: '' else ''Assistant: '') @ content m) msgs"
    if ne: "msgs \<noteq> []" and clean: "\<forall>m \<in> set msgs. CHR ''\<newline>'' \<notin> set (content m)"
  proof -
    have "\<forall>l \<in> set (map transcript_line msgs). CHR ''\<newline>'' \<notin> set l"
      using clean by (auto dest: transcript_line_clean)
    moreover have "map transcript_line msgs \<noteq> []"
      using ne by simp
    ultimately have "split_on CHR ''\<newline>'' (join [CHR ''\<newline>''] (map transcript_line msgs))
        = map transcript_line msgs"
      by (rule split_on_join [rotated])
    then have "split_on CHR ''\<newline>'' (format_conversation_history msgs)
        = map transcript_line msgs"
      by (simp only: format_conversation_history_def)
    also have "\<dots> = map (\<lambda>m. (if role m = ''user'' then ''Customer: '' else ''Assistant: '') @ content m) msgs"
      by (simp add: transcript_line_def)
    finally show ?thesis .
  qed
  from a b c show ?thesis by blast
qed

theorem transcript_one_line_per_message_witness:
  "format_conversation_history
      [\<lparr>role = ''user'', content = ''hi''\<rparr>, \<lparr>role = ''assistant'', content = ''hello''\<rparr>,
       \<lparr>role = ''system'', content = ''bye''\<rparr>]
     = ''Customer: hi\<newline>Assistant: hello\<newline>Assistant: bye''
   \<and> split_on CHR ''\<newline>'' (format_conversation_history
      [\<lparr>role = ''user'', content = ''hi''\<rparr>, \<lparr>role = ''assistant'', content = ''hello''\<rparr>,
       \<lparr>role = ''system'', content = ''bye''\<rparr>])
     = [''Customer: hi'', ''Assistant: hello'', ''Assistant: bye'']"
  using transcript_one_line_per_message
    [of "[\<lparr>role = ''user'', content = ''hi''\<rparr>, \<lparr>role = ''assistant'', content = ''hello''\<rparr>,
          \<lparr>role = ''system'', content = ''bye''\<rparr>]"]
  by simp

section \<open>One pass through the graph\<close>

text \<open>
  C8: whatever the completion call does, the state \<open>process_step\<close> returns has
  \<open>completed\<close> true and \<open>should_continue\<close> answers \<open>end\<close> on it; an invocation of the
  graph is therefore exactly one application of \<open>process_step\<close>, with no way back to
  the node.
\<close>

theorem single_processing_pass:
  "completed (process_step dumps create self st)
   \<and> should_continue (process_step dumps create self st) = ''end''
   \<and> invoke dumps create self st = process_step dumps create self st"
proof -
  have fin: "completed (process_step dumps create self st)"
    by (simp add: process_step_def split: sum.splits)
  then have stop: "should_continue (process_step dumps create self st) = ''end''"
    by (simp add: should_continue_def)
  from fin stop invoke_once show ?thesis by blast
qed

section \<open>The catalog is only read\<close>

text \<open>
  C9: no turn changes the catalog. In \<^verbatim>\<open>claudeonly.py\<close> the agent after \<open>chat\<close>, and
  after any run of turns, holds the catalog it held before, and its \<open>state\<close> (with the
  catalog copies in it) is untouched. In \<^verbatim>\<open>claudandlanggraph.py\<close> the agent is not
  written at all (it is an argument, never a result), and the catalog and context of
  the state are the same after \<open>process_step\<close> and after \<open>chat\<close>; a first turn puts the
  agent's catalog there.
\<close>

theorem catalog_never_mutated:
  "agent_product_db_co (snd (chat_co dumps create self_co message)) = agent_product_db_co self_co
   \<and> state_co (snd (chat_co dumps create self_co message)) = state_co self_co
   \<and> agent_product_db_co (run_chat_co dumps self_co turns) = agent_product_db_co self_co
   \<and> product_db (process_step dumps create self st) = product_db st
   \<and> context_lg (process_step dumps create self st) = context_lg st
   \<and> product_db (chat dumps create self message (Some st)) = product_db st
   \<and> context_lg (chat dumps create self message (Some st)) = context_lg st
   \<and> product_db (chat dumps create self message None) = agent_product_db self
   \<and> context_lg (chat dumps create self message None) = [(''product_db'', agent_product_db self)]"
  by (simp add: chat_co_frame run_chat_co_frame process_step_frame chat_is_one_step
      turn_state_frame)

section \<open>A failed turn in claudeonly.py\<close>

text \<open>
  C10: in \<^verbatim>\<open>claudeonly.py\<close>, when the completion call raises, \<open>chat\<close> returns the
  apology and the agent as it was before the call: the history has neither the user
  message nor an assistant message added.
\<close>

theorem chat_co_atomic_on_error:
  "create (completion_request (create_prompt dumps self message)) = Inl e \<Longrightarrow>
     chat_co dumps create self message = (apology, self)
     \<and> history (snd (chat_co dumps create self message)) = history self"
  by (simp add: chat_co_def attempt_co_def)

theorem chat_co_atomic_on_error_witness:
  "failing_client (completion_request (create_prompt stub_dumps fresh_agent_co ''hello''))
     = Inl (ClientError ''connection reset'')
   \<and> chat_co stub_dumps failing_client fresh_agent_co ''hello'' = (apology, fresh_agent_co)
   \<and> history (snd (chat_co stub_dumps failing_client fresh_agent_co ''hello'')) = []"
proof -
  have raises: "failing_client (completion_request (create_prompt stub_dumps fresh_agent_co ''hello''))
     = Inl (ClientError ''connection reset'')"
    by (simp add: failing_client_def)
  from chat_co_atomic_on_error
         [of failing_client stub_dumps fresh_agent_co "''hello''" "ClientError ''connection reset''"]
       raises
  show ?thesis
    by (simp add: fresh_agent_co_def)
qed

end
